theory Spec2Isabelle
  imports Complex_Main "HOL-Library.AList" "HOL-Library.Multiset"
begin

section \<open>Values\<close>

text \<open>
  The services exchange JSON. A value is null, a string or a number; a number is kept by
  its value (Python compares \<open>30 == 30.0\<close> as equal, and so do the dictionaries
  holding them). Python floats are modelled by exact rationals: the arithmetic of
  \<open>Patient.bmi\<close> is the exact quotient, and \<open>round\<close> rounds the exact value, half
  to even. Booleans, arrays and nested objects do not occur in any field of the schemas
  and are left out of the type.
\<close>

datatype jval = JNull | JStr string | JNum rat

text \<open>
  A Python \<open>dict\<close> with string keys, in insertion order: \<open>d[k] = v\<close> is
  \<^const>\<open>AList.update\<close> (the value is replaced in place when the key is there, the
  entry is appended otherwise), \<open>k in d\<close> is membership in the keys, \<open>d[k]\<close> is
  \<^const>\<open>map_of\<close>, \<open>del d[k]\<close> is \<^const>\<open>AList.delete\<close>.
\<close>

type_synonym jdict = "(string \<times> jval) list"

definition keys :: "(string \<times> 'v) list \<Rightarrow> string set" where
  "keys d = set (map fst d)"

datatype py_error = ZeroDivisionError | KeyError | TypeError

section \<open>Rounding\<close>

text \<open>Python's \<open>round(x, ndigits)\<close>: the nearest multiple of \<open>10 ^ -ndigits\<close>, ties to even.\<close>

definition round_half_even :: "rat \<Rightarrow> int" where
  "round_half_even x =
     (let f = \<lfloor>x\<rfloor>; r = x - of_int f
      in if r < 1 / 2 then f
         else if 1 / 2 < r then f + 1
         else if even f then f else f + 1)"

definition py_round :: "rat \<Rightarrow> nat \<Rightarrow> rat" where
  "py_round x ndigits = of_int (round_half_even (x * 10 ^ ndigits)) / 10 ^ ndigits"

section \<open>The Patient schema (main.py)\<close>

record Patient =
  id :: string
  name :: string
  city :: string
  age :: int
  gender :: string
  height :: rat
  weight :: rat

text \<open>
  \<open>Patient.bmi\<close>: \<open>round(self.weight / ((self.height / 100) ** 2), 2)\<close>. The division
  raises \<open>ZeroDivisionError\<close> when the divisor is zero.

  This is the expression on exact numbers. Python evaluates it on binary floating point,
  which this theory does not model: there the result can lie one hundredth away from the
  exact one when the quotient sits on or next to a rounding boundary, and the expression
  raises \<open>ZeroDivisionError\<close> or \<open>OverflowError\<close> for heights whose square leaves the
  range of a float, although validation admits them. The theorems on the handlers are
  therefore stated for whatever \<open>bmi\<close> returns, a value or an error, and none of them
  rests on which value it is or on its returning one; the only values used are those of
  the example patients, where float and exact arithmetic agree.
\<close>

definition bmi :: "Patient \<Rightarrow> py_error + rat" where
  "bmi p =
     (let d = (height p / 100) ^ 2
      in if d = 0 then Inl ZeroDivisionError else Inr (py_round (weight p / d) 2))"

text \<open>\<open>Patient.verdict\<close>: the \<open>if\<close>/\<open>elif\<close>/\<open>else\<close> chain over \<open>self.bmi\<close>.\<close>

definition verdict :: "Patient \<Rightarrow> py_error + string" where
  "verdict p =
     (case bmi p of
        Inl e \<Rightarrow> Inl e
      | Inr b \<Rightarrow>
          Inr (if b < 18.5 then ''Underweight''
               else if 18.5 \<le> b \<and> b < 24.9 then ''Normal weight''
               else if 25 \<le> b \<and> b < 29.9 then ''Overweight''
               else ''Obesity''))"

section \<open>Validation\<close>

text \<open>
  One error per field that fails, naming the field, as pydantic reports them. A string
  field takes a JSON string only; an integer field takes a number without fractional
  part; a float field takes any number. Pydantic's conversion of numeric strings
  (\<open>"30"\<close> for an \<open>int\<close> field) is not modelled: such a value is a type error here.
  Keys that are not fields of the schema are ignored (pydantic's default).
\<close>

datatype verr =
    Missing string
  | StringType string
  | IntType string
  | FloatType string
  | LiteralError string
  | GreaterThan string
  | LessThan string

definition str_field :: "string \<Rightarrow> jdict \<Rightarrow> verr + string" where
  "str_field f d =
     (case map_of d f of
        None \<Rightarrow> Inl (Missing f)
      | Some (JStr s) \<Rightarrow> Inr s
      | Some _ \<Rightarrow> Inl (StringType f))"

definition int_value :: "string \<Rightarrow> jval \<Rightarrow> verr + int" where
  "int_value f v =
     (case v of
        JNum r \<Rightarrow> if of_int \<lfloor>r\<rfloor> = r then Inr \<lfloor>r\<rfloor> else Inl (IntType f)
      | _ \<Rightarrow> Inl (IntType f))"

definition float_value :: "string \<Rightarrow> jval \<Rightarrow> verr + rat" where
  "float_value f v = (case v of JNum r \<Rightarrow> Inr r | _ \<Rightarrow> Inl (FloatType f))"

definition literal_value :: "string \<Rightarrow> jval \<Rightarrow> verr + string" where
  "literal_value f v =
     (case v of
        JStr s \<Rightarrow> if s \<in> set [''male'', ''female'', ''other''] then Inr s
                  else Inl (LiteralError f)
      | _ \<Rightarrow> Inl (LiteralError f))"

text \<open>The numeric constraints of \<open>Field\<close>: \<open>gt\<close> and \<open>lt\<close>, checked in this order.\<close>

definition check_gt :: "string \<Rightarrow> 'a::linorder \<Rightarrow> verr + 'a \<Rightarrow> verr + 'a" where
  "check_gt f lo r =
     (case r of Inl e \<Rightarrow> Inl e | Inr x \<Rightarrow> if lo < x then Inr x else Inl (GreaterThan f))"

definition check_lt :: "string \<Rightarrow> 'a::linorder \<Rightarrow> verr + 'a \<Rightarrow> verr + 'a" where
  "check_lt f hi r =
     (case r of Inl e \<Rightarrow> Inl e | Inr x \<Rightarrow> if x < hi then Inr x else Inl (LessThan f))"

definition required :: "string \<Rightarrow> (string \<Rightarrow> jval \<Rightarrow> verr + 'a) \<Rightarrow> jdict \<Rightarrow> verr + 'a" where
  "required f conv d = (case map_of d f of None \<Rightarrow> Inl (Missing f) | Some v \<Rightarrow> conv f v)"

definition errs_of :: "verr + 'a \<Rightarrow> verr list" where
  "errs_of r = (case r of Inl e \<Rightarrow> [e] | Inr _ \<Rightarrow> [])"

text \<open>
  \<open>Patient(**d)\<close> and the validation of a request body against \<open>Patient\<close>: every field
  is required; \<open>age\<close> has \<open>gt=0, lt=120\<close>, \<open>height\<close> and \<open>weight\<close> have \<open>gt=0\<close>,
  \<open>gender\<close> is one of three literals; \<open>id\<close>, \<open>name\<close> and \<open>city\<close> are plain \<open>str\<close>.
\<close>

definition Patient_init :: "jdict \<Rightarrow> verr list + Patient" where
  "Patient_init d =
     (let r_id = str_field ''id'' d;
          r_name = str_field ''name'' d;
          r_city = str_field ''city'' d;
          r_age = check_lt ''age'' 120 (check_gt ''age'' 0 (required ''age'' int_value d));
          r_gender = required ''gender'' literal_value d;
          r_height = check_gt ''height'' 0 (required ''height'' float_value d);
          r_weight = check_gt ''weight'' 0 (required ''weight'' float_value d)
      in case (r_id, r_name, r_city, r_age, r_gender, r_height, r_weight) of
           (Inr i, Inr n, Inr c, Inr a, Inr g, Inr h, Inr w) \<Rightarrow>
             Inr \<lparr>id = i, name = n, city = c, age = a, gender = g, height = h, weight = w\<rparr>
         | _ \<Rightarrow>
             Inl (errs_of r_id @ errs_of r_name @ errs_of r_city @ errs_of r_age @
                  errs_of r_gender @ errs_of r_height @ errs_of r_weight))"

text \<open>
  \<open>patient.model_dump(exclude=["id"])\<close>: the fields in declaration order without
  \<open>id\<close>, followed by the computed fields \<open>bmi\<close> and \<open>verdict\<close>, which pydantic
  evaluates and includes in every dump of the model.
\<close>

definition model_dump_exclude_id :: "Patient \<Rightarrow> py_error + jdict" where
  "model_dump_exclude_id p =
     (case bmi p of
        Inl e \<Rightarrow> Inl e
      | Inr b \<Rightarrow>
          (case verdict p of
             Inl e \<Rightarrow> Inl e
           | Inr v \<Rightarrow>
               Inr [(''name'', JStr (name p)),
                    (''city'', JStr (city p)),
                    (''age'', JNum (of_int (age p))),
                    (''gender'', JStr (gender p)),
                    (''height'', JNum (height p)),
                    (''weight'', JNum (weight p)),
                    (''bmi'', JNum b),
                    (''verdict'', JStr v)]))"

section \<open>The PatientUpdate schema\<close>

text \<open>
  Every field of \<open>PatientUpdate\<close> is \<open>Optional\<close> with default \<open>None\<close>. Pydantic
  records which fields the request supplied: a field is unset, or given as \<open>null\<close>,
  or given with a value. The fields are those of \<open>Patient\<close> without \<open>id\<close>; here
  they carry the prefix \<open>upd\<close>.
\<close>

datatype 'a field = Unset | Given "'a option"

record PatientUpdate =
  upd_name :: "string field"
  upd_city :: "string field"
  upd_age :: "int field"
  upd_gender :: "string field"
  upd_height :: "rat field"
  upd_weight :: "rat field"

definition optional :: "string \<Rightarrow> (string \<Rightarrow> jval \<Rightarrow> verr + 'a) \<Rightarrow> jdict \<Rightarrow> verr + 'a field" where
  "optional f conv d =
     (case map_of d f of
        None \<Rightarrow> Inr Unset
      | Some JNull \<Rightarrow> Inr (Given None)
      | Some v \<Rightarrow> (case conv f v of Inl e \<Rightarrow> Inl e | Inr x \<Rightarrow> Inr (Given (Some x))))"

definition str_value :: "string \<Rightarrow> jval \<Rightarrow> verr + string" where
  "str_value f v = (case v of JStr s \<Rightarrow> Inr s | _ \<Rightarrow> Inl (StringType f))"

text \<open>
  The validation of a request body against \<open>PatientUpdate\<close>: \<open>age\<close>, \<open>height\<close> and
  \<open>weight\<close> have \<open>gt=0\<close> and nothing else (no \<open>lt=120\<close> on \<open>age\<close>).
\<close>

definition PatientUpdate_init :: "jdict \<Rightarrow> verr list + PatientUpdate" where
  "PatientUpdate_init d =
     (let r_name = optional ''name'' str_value d;
          r_city = optional ''city'' str_value d;
          r_age = optional ''age'' (\<lambda>f v. check_gt f 0 (int_value f v)) d;
          r_gender = optional ''gender'' literal_value d;
          r_height = optional ''height'' (\<lambda>f v. check_gt f 0 (float_value f v)) d;
          r_weight = optional ''weight'' (\<lambda>f v. check_gt f 0 (float_value f v)) d
      in case (r_name, r_city, r_age, r_gender, r_height, r_weight) of
           (Inr n, Inr c, Inr a, Inr g, Inr h, Inr w) \<Rightarrow>
             Inr \<lparr>upd_name = n, upd_city = c, upd_age = a, upd_gender = g,
                  upd_height = h, upd_weight = w\<rparr>
         | _ \<Rightarrow>
             Inl (errs_of r_name @ errs_of r_city @ errs_of r_age @
                  errs_of r_gender @ errs_of r_height @ errs_of r_weight))"

definition dump_field :: "string \<Rightarrow> ('a \<Rightarrow> jval) \<Rightarrow> 'a field \<Rightarrow> jdict" where
  "dump_field k enc fld =
     (case fld of Unset \<Rightarrow> [] | Given None \<Rightarrow> [(k, JNull)] | Given (Some x) \<Rightarrow> [(k, enc x)])"

text \<open>\<open>patient_update.model_dump(exclude_unset=True)\<close>: the supplied fields, in declaration order.\<close>

definition model_dump_exclude_unset :: "PatientUpdate \<Rightarrow> jdict" where
  "model_dump_exclude_unset u =
     dump_field ''name'' JStr (upd_name u) @
     dump_field ''city'' JStr (upd_city u) @
     dump_field ''age'' (\<lambda>i. JNum (of_int i)) (upd_age u) @
     dump_field ''gender'' JStr (upd_gender u) @
     dump_field ''height'' JNum (upd_height u) @
     dump_field ''weight'' JNum (upd_weight u)"

section \<open>The store and the route handlers (main.py)\<close>

text \<open>
  \<open>patients.json\<close> holds one JSON object: patient identifier to record body.
  \<open>load_data\<close> reads all of it and \<open>save_data\<close> overwrites all of it, so a handler
  is a function from the collection in the file to its outcome and the collection in the
  file afterwards. A handler that raises before \<open>save_data\<close> leaves the file as it was.
  The file is taken to exist and to hold such an object.
\<close>

type_synonym collection = "(string \<times> jdict) list"

text \<open>
  What a request can end in besides the handler's own response: an \<open>HTTPException\<close>
  with its status and detail, the rejection of the request body by the framework (422),
  and an exception that no handler catches (500): pydantic's \<open>ValidationError\<close> raised
  by \<open>Patient(**...)\<close> inside a handler, or a Python error.
\<close>

datatype failure =
    HTTPException nat string
  | RequestValidationError "verr list"
  | ValidationError "verr list"
  | PyError py_error


datatype response = JSONResponse nat jdict

definition view :: "collection \<Rightarrow> collection" where
  "view data = data"

definition view_patient :: "string \<Rightarrow> collection \<Rightarrow> failure + jdict" where
  "view_patient patient_id data =
     (case map_of data patient_id of
        Some x \<Rightarrow> Inr x
      | None \<Rightarrow> Inl (HTTPException 404 ''Patient not found''))"

text \<open>
  \<open>sorted(xs, key=lambda x: x[sort_by], reverse=r)\<close>. The key is read from every
  element first (a missing key raises \<open>KeyError\<close>). Python's sort is stable, and with
  \<open>reverse=True\<close> it still keeps elements with equal keys in their original order: it is
  the stable sort of the reversed list, reversed. Comparing a number with a string or
  with \<open>None\<close> raises \<open>TypeError\<close>; the model raises it whenever some key is not a
  number (Python would still sort a list whose keys are all strings, or a single element).
\<close>

definition num_key :: "string \<Rightarrow> jdict \<Rightarrow> rat" where
  "num_key k x = (case map_of x k of Some (JNum r) \<Rightarrow> r | _ \<Rightarrow> 0)"

definition is_num_key :: "string \<Rightarrow> jdict \<Rightarrow> bool" where
  "is_num_key k x = (case map_of x k of Some (JNum r) \<Rightarrow> True | _ \<Rightarrow> False)"

definition py_sorted :: "string \<Rightarrow> bool \<Rightarrow> jdict list \<Rightarrow> py_error + jdict list" where
  "py_sorted k reverse xs =
     (if list_ex (\<lambda>x. map_of x k = None) xs then Inl KeyError
      else if list_ex (\<lambda>x. \<not> is_num_key k x) xs then Inl TypeError
      else Inr (if reverse then rev (sort_key (num_key k) (rev xs))
                else sort_key (num_key k) xs))"

definition valid_fields :: "string list" where
  "valid_fields = [''height'', ''weight'', ''bmi'']"

definition invalid_field_detail :: string where
  "invalid_field_detail = ''Invalid field select from ['height', 'weight', 'bmi']''"

definition invalid_order_detail :: string where
  "invalid_order_detail = ''Order must be 'asc' or 'desc'' @ [CHR 0x27]"

definition sort_patients :: "string \<Rightarrow> string \<Rightarrow> collection \<Rightarrow> failure + jdict list" where
  "sort_patients sort_by order data =
     (if sort_by \<notin> set valid_fields then Inl (HTTPException 400 invalid_field_detail)
      else if order \<notin> set [''asc'', ''desc''] then Inl (HTTPException 400 invalid_order_detail)
      else
        let sort_order = (if order = ''desc'' then True else False)
        in case py_sorted sort_by sort_order (map snd data) of
             Inl e \<Rightarrow> Inl (PyError e)
           | Inr sorted_data \<Rightarrow> Inr sorted_data)"

definition create_patient :: "Patient \<Rightarrow> collection \<Rightarrow> (failure + response) \<times> collection" where
  "create_patient patient data =
     (if id patient \<in> keys data
      then (Inl (HTTPException 400 ''Patient ID already exists''), data)
      else
        case model_dump_exclude_id patient of
          Inl e \<Rightarrow> (Inl (PyError e), data)
        | Inr body \<Rightarrow>
            (Inr (JSONResponse 201
                    [(''message'', JStr ''Patient created successfully''),
                     (''patient_id'', JStr (id patient))]),
             AList.update (id patient) body data))"

definition update_patient ::
  "string \<Rightarrow> PatientUpdate \<Rightarrow> collection \<Rightarrow> (failure + response) \<times> collection" where
  "update_patient patient_id patient_update data =
     (case map_of data patient_id of
        None \<Rightarrow> (Inl (HTTPException 404 ''Patient not found''), data)
      | Some existing_patient_info \<Rightarrow>
          (let update_patient_info = model_dump_exclude_unset patient_update;
               merged = fold (\<lambda>(key, v) d. AList.update key v d)
                          update_patient_info existing_patient_info;
               with_id = AList.update ''id'' (JStr patient_id) merged
           in (case Patient_init with_id of
                 Inl errs \<Rightarrow> (Inl (ValidationError errs), data)
               | Inr patient_pydantic_object \<Rightarrow>
                   (case model_dump_exclude_id patient_pydantic_object of
                      Inl e \<Rightarrow> (Inl (PyError e), data)
                    | Inr body \<Rightarrow>
                        (Inr (JSONResponse 200
                                [(''message'', JStr ''Patient updated successfully''),
                                 (''patient_id'', JStr patient_id)]),
                         AList.update patient_id body data)))))"

definition delete_patient :: "string \<Rightarrow> collection \<Rightarrow> (failure + response) \<times> collection" where
  "delete_patient patient_id data =
     (if patient_id \<notin> keys data
      then (Inl (HTTPException 404 ''Patient not found''), data)
      else
        (Inr (JSONResponse 200
                [(''message'', JStr ''Patient deleted successfully''),
                 (''patient_id'', JStr patient_id)]),
         AList.delete patient_id data))"

text \<open>
  The routes as a client reaches them: the framework validates the request body against
  the handler's parameter type and answers 422 itself when that fails; the handler runs
  on the validated model only.
\<close>

definition post_create :: "jdict \<Rightarrow> collection \<Rightarrow> (failure + response) \<times> collection" where
  "post_create body data =
     (case Patient_init body of
        Inl errs \<Rightarrow> (Inl (RequestValidationError errs), data)
      | Inr patient \<Rightarrow> create_patient patient data)"

definition put_update :: "string \<Rightarrow> jdict \<Rightarrow> collection \<Rightarrow> (failure + response) \<times> collection" where
  "put_update patient_id body data =
     (case PatientUpdate_init body of
        Inl errs \<Rightarrow> (Inl (RequestValidationError errs), data)
      | Inr patient_update \<Rightarrow> update_patient patient_id patient_update data)"

section \<open>The inference adapter (insurance/app.py)\<close>

text \<open>
  Modelled from the spec: the schema \<open>UserInput\<close> (\<open>schema/user_input.py\<close> is not
  among the sources). \<open>predict\<close> reads six attributes of it, which the spec lists as
  BMI, age group, lifestyle-risk category, city tier, income and occupation.
\<close>

record UserInput =
  bmi_value :: rat
  age_group :: string
  lifestyle_risk :: string
  city_tier :: int
  income_lpa :: rat
  occupation :: string

text \<open>
  \<open>predict_output\<close> (\<open>model/predict.py\<close>, not among the sources) is a parameter: the
  classifier takes the feature dictionary and either returns a label or raises an
  exception \<open>e\<close>, given here by \<open>str(e)\<close>. It runs on a state of its own, so that
  the number of calls the handler makes can be observed.
\<close>

type_synonym 'm classifier = "jdict \<Rightarrow> 'm \<Rightarrow> (string + jval) \<times> 'm"

definition user_input :: "UserInput \<Rightarrow> jdict" where
  "user_input data =
     [(''bmi'', JNum (bmi_value data)),
      (''age_group'', JStr (age_group data)),
      (''lifestyle_risk'', JStr (lifestyle_risk data)),
      (''city_tier'', JNum (of_int (city_tier data))),
      (''income_lpa'', JNum (income_lpa data)),
      (''occupation'', JStr (occupation data))]"

definition predict :: "'m classifier \<Rightarrow> UserInput \<Rightarrow> 'm \<Rightarrow> response \<times> 'm" where
  "predict predict_output data m =
     (case predict_output (user_input data) m of
        (Inr prediction, m') \<Rightarrow> (JSONResponse 200 [(''response'', prediction)], m')
      | (Inl e, m') \<Rightarrow> (JSONResponse 500 [(''error'', JStr e)], m'))"

text \<open>
  The dictionary that \<open>update_patient\<close> passes to \<open>Patient(**...)\<close>: the stored body
  with the supplied fields written over it, then \<open>id\<close> set to the path parameter.
\<close>

definition merged_info :: "string \<Rightarrow> PatientUpdate \<Rightarrow> jdict \<Rightarrow> jdict" where
  "merged_info patient_id patient_update existing_patient_info =
     AList.update ''id'' (JStr patient_id)
       (fold (\<lambda>(key, v) d. AList.update key v d)
          (model_dump_exclude_unset patient_update) existing_patient_info)"

section \<open>Example data\<close>

definition john_raw :: jdict where
  "john_raw = [(''id'', JStr ''P001''), (''name'', JStr ''John Doe''), (''city'', JStr ''New York''),
               (''age'', JNum 30), (''gender'', JStr ''male''), (''height'', JNum 175.5),
               (''weight'', JNum 70.2)]"

definition john :: Patient where
  "john = \<lparr>id = ''P001'', name = ''John Doe'', city = ''New York'', age = 30,
            gender = ''male'', height = 175.5, weight = 70.2\<rparr>"

definition john_body :: jdict where
  "john_body = [(''name'', JStr ''John Doe''), (''city'', JStr ''New York''),
                (''age'', JNum 30), (''gender'', JStr ''male''), (''height'', JNum 175.5),
                (''weight'', JNum 70.2), (''bmi'', JNum 22.79),
                (''verdict'', JStr ''Normal weight'')]"

definition john_heavier :: jdict where
  "john_heavier = [(''name'', JStr ''John Doe''), (''city'', JStr ''New York''),
                   (''age'', JNum 30), (''gender'', JStr ''male''), (''height'', JNum 175.5),
                   (''weight'', JNum 80), (''bmi'', JNum 25.97),
                   (''verdict'', JStr ''Overweight'')]"

definition john_store :: collection where
  "john_store = [(''P001'', john_body)]"

definition heavier_store :: collection where
  "heavier_store = [(''P001'', john_heavier)]"

definition created :: response where
  "created = JSONResponse 201 [(''message'', JStr ''Patient created successfully''),
                               (''patient_id'', JStr ''P001'')]"

definition updated :: response where
  "updated = JSONResponse 200 [(''message'', JStr ''Patient updated successfully''),
                               (''patient_id'', JStr ''P001'')]"

text \<open>A request whose \<open>id\<close> and \<open>name\<close> are empty strings, and the body stored for it.\<close>

definition blank_raw :: jdict where
  "blank_raw = [(''id'', JStr ''''), (''name'', JStr ''''), (''city'', JStr ''New York''),
                (''age'', JNum 30), (''gender'', JStr ''male''), (''height'', JNum 175.5),
                (''weight'', JNum 70.2)]"

definition blank_body :: jdict where
  "blank_body = [(''name'', JStr ''''), (''city'', JStr ''New York''),
                 (''age'', JNum 30), (''gender'', JStr ''male''), (''height'', JNum 175.5),
                 (''weight'', JNum 70.2), (''bmi'', JNum 22.79),
                 (''verdict'', JStr ''Normal weight'')]"

text \<open>A patient of 200 cm and 99.8 kg: the quotient is 24.95.\<close>

definition gap_patient :: Patient where
  "gap_patient = \<lparr>id = ''P002'', name = ''Jane Roe'', city = ''Pune'', age = 41,
                   gender = ''female'', height = 200, weight = 99.8\<rparr>"

text \<open>An update that sets \<open>age\<close> to 150 and nothing else.\<close>

definition age_150 :: PatientUpdate where
  "age_150 = \<lparr>upd_name = Unset, upd_city = Unset, upd_age = Given (Some 150),
               upd_gender = Unset, upd_height = Unset, upd_weight = Unset\<rparr>"

text \<open>Three stored records of equal height with BMIs 18, 30 and 22, in this order.\<close>

definition rec_a :: jdict where
  "rec_a = [(''name'', JStr ''Asha''), (''city'', JStr ''Pune''), (''age'', JNum 25),
            (''gender'', JStr ''female''), (''height'', JNum 100), (''weight'', JNum 18),
            (''bmi'', JNum 18), (''verdict'', JStr ''Underweight'')]"

definition rec_b :: jdict where
  "rec_b = [(''name'', JStr ''Bo''), (''city'', JStr ''Oslo''), (''age'', JNum 52),
            (''gender'', JStr ''male''), (''height'', JNum 100), (''weight'', JNum 30),
            (''bmi'', JNum 30), (''verdict'', JStr ''Obesity'')]"

definition rec_c :: jdict where
  "rec_c = [(''name'', JStr ''Cy''), (''city'', JStr ''Lima''), (''age'', JNum 37),
            (''gender'', JStr ''other''), (''height'', JNum 100), (''weight'', JNum 22),
            (''bmi'', JNum 22), (''verdict'', JStr ''Normal weight'')]"

definition trio :: collection where
  "trio = [(''A'', rec_a), (''B'', rec_b), (''C'', rec_c)]"

text \<open>Two classifiers that count their calls: one answers, one raises.\<close>

definition sample_input :: UserInput where
  "sample_input = \<lparr>bmi_value = 22.79, age_group = ''adult'', lifestyle_risk = ''low'',
                    city_tier = 1, income_lpa = 12.5, occupation = ''private_job''\<rparr>"

definition answering :: "nat classifier" where
  "answering features calls = (Inr (JStr ''High''), Suc calls)"

definition failing :: "nat classifier" where
  "failing features calls = (Inl ''feature shape mismatch'', Suc calls)"


text \<open>
  A collection whose record does not hold the \<open>bmi\<close> and \<open>verdict\<close> of its height and
  weight, as after an edit of the file by hand: the weight is 80, the derived entries are
  those of weight 70.2.
\<close>

definition stale_body :: jdict where
  "stale_body = [(''name'', JStr ''John Doe''), (''city'', JStr ''New York''),
                 (''age'', JNum 30), (''gender'', JStr ''male''), (''height'', JNum 175.5),
                 (''weight'', JNum 80), (''bmi'', JNum 22.79),
                 (''verdict'', JStr ''Normal weight'')]"

definition stale_store :: collection where
  "stale_store = [(''P001'', stale_body)]"


section \<open>The derived fields\<close>

text \<open>
  C2, as the code has it. A BMI in \<open>[24.9, 25)\<close> meets none of the three guarded
  conditions (below 18.5; from 18.5 to below 24.9; from 25 to below 29.9) and reaches the
  final \<open>else\<close>, so the verdict is \<open>Obesity\<close>: the value is classified, not left out.
\<close>

theorem verdict_gap:
  assumes "0 < height p" and "0 < weight p" and "bmi p = Inr b" and "24.9 \<le> b" and "b < 25"
  shows "\<not> b < 18.5 \<and> \<not> (18.5 \<le> b \<and> b < 24.9) \<and> \<not> (25 \<le> b \<and> b < 29.9)
         \<and> verdict p = Inr ''Obesity''"
  using assms by (simp add: verdict_def)

theorem verdict_gap_witness:
  "bmi gap_patient = Inr 24.95 \<and> verdict gap_patient = Inr ''Obesity''"
proof -
  have h: "0 < height gap_patient" and w: "0 < weight gap_patient"
    by (simp_all add: gap_patient_def)
  have b: "bmi gap_patient = Inr 24.95"
    by code_simp
  show ?thesis
    using verdict_gap [OF h w b] b by simp
qed

text \<open>
  C2 as stated fails: the patient of 200 cm and 99.8 kg has BMI 24.95, inside
  \<open>[24.9, 25)\<close>, and the verdict is one of the four buckets.
\<close>

theorem verdict_gap_counterexample:
  "0 < height gap_patient \<and> 0 < weight gap_patient
   \<and> bmi gap_patient = Inr 24.95 \<and> (24.9 :: rat) \<le> 24.95 \<and> (24.95 :: rat) < 25
   \<and> verdict gap_patient = Inr ''Obesity''"
  by code_simp

section \<open>Validation\<close>

lemma check_gt_Inr: "check_gt f lo r = Inr x \<longleftrightarrow> r = Inr x \<and> lo < x"
  by (auto simp: check_gt_def split: sum.splits)

lemma check_lt_Inr: "check_lt f hi r = Inr x \<longleftrightarrow> r = Inr x \<and> x < hi"
  by (auto simp: check_lt_def split: sum.splits)

lemma str_field_Inr: "str_field f d = Inr s \<longleftrightarrow> map_of d f = Some (JStr s)"
  by (auto simp: str_field_def split: option.splits jval.splits)

lemma required_float_Inr: "required f float_value d = Inr r \<longleftrightarrow> map_of d f = Some (JNum r)"
  by (auto simp: required_def float_value_def split: option.splits jval.splits)

lemma required_int_Inr:
  "required f int_value d = Inr i \<longleftrightarrow> map_of d f = Some (JNum (of_int i))"
  by (auto simp: required_def int_value_def split: option.splits jval.splits)

lemma required_literal_Inr:
  "required f literal_value d = Inr s \<Longrightarrow> map_of d f = Some (JStr s)"
  by (auto simp: required_def literal_value_def split: option.splits jval.splits if_splits)

lemma Patient_init_Inr:
  "Patient_init d = Inr p \<longleftrightarrow>
     str_field ''id'' d = Inr (id p) \<and> str_field ''name'' d = Inr (name p) \<and>
     str_field ''city'' d = Inr (city p) \<and>
     check_lt ''age'' 120 (check_gt ''age'' 0 (required ''age'' int_value d)) = Inr (age p) \<and>
     required ''gender'' literal_value d = Inr (gender p) \<and>
     check_gt ''height'' 0 (required ''height'' float_value d) = Inr (height p) \<and>
     check_gt ''weight'' 0 (required ''weight'' float_value d) = Inr (weight p)"
  by (cases p) (auto simp: Patient_init_def Let_def split: sum.splits)

lemma Patient_init_Inl: "Patient_init d = Inl errs \<Longrightarrow> errs \<noteq> []"
  by (auto simp: Patient_init_def Let_def errs_of_def split: sum.splits)

text \<open>A validated patient meets every constraint of the schema.\<close>

lemma Patient_init_constraints:
  assumes "Patient_init d = Inr p"
  shows "0 < age p" "age p < 120" "gender p \<in> {''male'', ''female'', ''other''}"
    "0 < height p" "0 < weight p"
  using assms
  by (auto simp: Patient_init_Inr check_gt_Inr check_lt_Inr required_def literal_value_def
      split: option.splits jval.splits if_splits)

text \<open>The fields of a validated patient are the values the dictionary holds.\<close>

lemma Patient_init_lookup:
  assumes "Patient_init d = Inr p"
  shows "map_of d ''id'' = Some (JStr (id p))"
    and "map_of d ''name'' = Some (JStr (name p))"
    and "map_of d ''city'' = Some (JStr (city p))"
    and "map_of d ''age'' = Some (JNum (of_int (age p)))"
    and "map_of d ''gender'' = Some (JStr (gender p))"
    and "map_of d ''height'' = Some (JNum (height p))"
    and "map_of d ''weight'' = Some (JNum (weight p))"
  using assms
  by (simp_all add: Patient_init_Inr str_field_Inr check_gt_Inr check_lt_Inr
        required_float_Inr required_int_Inr required_literal_Inr)

lemma Patient_init_id:
  "Patient_init (AList.update ''id'' (JStr pid) d) = Inr p \<Longrightarrow> id p = pid"
  by (simp add: Patient_init_Inr str_field_def update_conv')

lemma john_init: "Patient_init john_raw = Inr john"
  by code_simp

section \<open>Serialisation\<close>

lemma model_dump_Inr:
  "model_dump_exclude_id p = Inr body \<longleftrightarrow>
     (\<exists>b v. bmi p = Inr b \<and> verdict p = Inr v \<and>
        body = [(''name'', JStr (name p)), (''city'', JStr (city p)),
                (''age'', JNum (of_int (age p))), (''gender'', JStr (gender p)),
                (''height'', JNum (height p)), (''weight'', JNum (weight p)),
                (''bmi'', JNum b), (''verdict'', JStr v)])"
  by (auto simp: model_dump_exclude_id_def split: sum.splits)

lemma dump_keys:
  "model_dump_exclude_id p = Inr body \<Longrightarrow>
     map fst body =
       [''name'', ''city'', ''age'', ''gender'', ''height'', ''weight'', ''bmi'', ''verdict'']"
  by (auto simp: model_dump_Inr)


lemma dump_field_key: "(a, b) \<in> set (dump_field k enc fld) \<Longrightarrow> a = k"
  by (auto simp: dump_field_def split: field.splits option.splits)

lemma dump_field_distinct: "distinct (map fst (dump_field k enc fld))"
  by (auto simp: dump_field_def split: field.splits option.splits)

lemma model_dump_exclude_unset_distinct: "distinct (map fst (model_dump_exclude_unset u))"
  unfolding model_dump_exclude_unset_def map_append distinct_append
  by (auto simp: dump_field_distinct dest!: dump_field_key)

section \<open>Dictionaries\<close>


lemma map_of_rev_distinct: "distinct (map fst xs) \<Longrightarrow> map_of (rev xs) = map_of xs"
proof (rule ext)
  fix k
  assume d: "distinct (map fst xs)"
  then have dr: "distinct (map fst (rev xs))"
    by (simp add: rev_map [symmetric])
  show "map_of (rev xs) k = map_of xs k"
  proof (cases "map_of xs k")
    case None
    then have "k \<notin> fst ` set xs"
      by (simp add: map_of_eq_None_iff)
    then have "map_of (rev xs) k = None"
      by (simp add: map_of_eq_None_iff)
    then show ?thesis
      using None by simp
  next
    case (Some v)
    then have "(k, v) \<in> set (rev xs)"
      using d by simp
    then show ?thesis
      using Some dr by simp
  qed
qed

text \<open>Writing a list of entries over a dictionary, one assignment after the other.\<close>

lemma map_of_fold_update:
  "map_of (fold (\<lambda>(key, v) d. AList.update key v d) upd d) k =
     (case map_of (rev upd) k of Some v \<Rightarrow> Some v | None \<Rightarrow> map_of d k)"
proof (induction upd arbitrary: d)
  case Nil
  then show ?case by simp
next
  case (Cons a upd)
  obtain key v where a: "a = (key, v)" by (cases a)
  show ?case
    by (simp add: Cons.IH a update_conv' map_of_append map_add_def split: option.splits)
qed

lemma merged_info_lookup:
  "map_of (merged_info pid u existing) k =
     (if k = ''id'' then Some (JStr pid)
      else case map_of (model_dump_exclude_unset u) k of
             Some v \<Rightarrow> Some v
           | None \<Rightarrow> map_of existing k)"
  by (simp add: merged_info_def update_conv' map_of_fold_update
        map_of_rev_distinct [OF model_dump_exclude_unset_distinct])

section \<open>The handlers\<close>


lemma create_patient_success:
  "create_patient p data = (Inr r, data') \<longleftrightarrow>
     id p \<notin> keys data \<and>
     (\<exists>body. model_dump_exclude_id p = Inr body \<and> data' = AList.update (id p) body data \<and>
        r = JSONResponse 201 [(''message'', JStr ''Patient created successfully''),
                              (''patient_id'', JStr (id p))])"
  by (auto simp: create_patient_def split: sum.splits)

lemma post_create_success:
  "post_create raw data = (Inr r, data') \<longleftrightarrow>
     (\<exists>p. Patient_init raw = Inr p \<and> create_patient p data = (Inr r, data'))"
  by (auto simp: post_create_def split: sum.splits)

lemma update_patient_success:
  "update_patient pid u data = (Inr r, data') \<longleftrightarrow>
     (\<exists>existing p body. map_of data pid = Some existing \<and>
        Patient_init (merged_info pid u existing) = Inr p \<and>
        model_dump_exclude_id p = Inr body \<and> data' = AList.update pid body data \<and>
        r = JSONResponse 200 [(''message'', JStr ''Patient updated successfully''),
                              (''patient_id'', JStr pid)])"
  by (auto simp: update_patient_def merged_info_def Let_def split: option.splits sum.splits)

lemma put_update_success:
  "put_update pid raw data = (Inr r, data') \<longleftrightarrow>
     (\<exists>u. PatientUpdate_init raw = Inr u \<and> update_patient pid u data = (Inr r, data'))"
  by (auto simp: put_update_def split: sum.splits)

text \<open>A handler that fails has not written the file.\<close>

lemma update_patient_failure: "update_patient pid u data = (Inl e, data') \<Longrightarrow> data' = data"
  by (auto simp: update_patient_def Let_def split: option.splits sum.splits)

lemma john_created: "post_create john_raw [] = (Inr created, john_store)"
  by code_simp

lemma john_updated:
  "put_update ''P001'' [(''weight'', JNum 80)] john_store = (Inr updated, heavier_store)"
  by code_simp




text \<open>
  C3, as the code has it. Validation requires \<open>id\<close> and \<open>name\<close> to be present and to be
  strings, and accepts every string for them, the empty one included: replacing \<open>id\<close> and
  \<open>name\<close> of a valid body by any two strings gives a valid body. A body without a string
  under \<open>id\<close> or under \<open>name\<close> fails validation. A body that fails validation is answered
  with the list of field errors, which is not empty, before the handler runs, and the
  collection stays as it was.
\<close>

theorem id_name_any_string:
  "(Patient_init raw = Inr p \<longrightarrow>
      Patient_init (AList.update ''id'' (JStr i) (AList.update ''name'' (JStr n) raw)) =
        Inr (p\<lparr>id := i, name := n\<rparr>))
 \<and> ((\<forall>s. map_of raw ''id'' \<noteq> Some (JStr s)) \<or> (\<forall>s. map_of raw ''name'' \<noteq> Some (JStr s)) \<longrightarrow>
      (\<exists>errs. Patient_init raw = Inl errs))
 \<and> (Patient_init raw = Inl errs \<longrightarrow>
      errs \<noteq> [] \<and> post_create raw data = (Inl (RequestValidationError errs), data))"
proof (intro conjI impI)
  assume "Patient_init raw = Inr p"
  then show "Patient_init (AList.update ''id'' (JStr i) (AList.update ''name'' (JStr n) raw)) =
        Inr (p\<lparr>id := i, name := n\<rparr>)"
    by (simp add: Patient_init_Inr str_field_def required_def update_conv')
next
  assume no: "(\<forall>s. map_of raw ''id'' \<noteq> Some (JStr s)) \<or> (\<forall>s. map_of raw ''name'' \<noteq> Some (JStr s))"
  show "\<exists>errs. Patient_init raw = Inl errs"
  proof (cases "Patient_init raw")
    case (Inl errs)
    then show ?thesis by blast
  next
    case (Inr q)
    then have "map_of raw ''id'' = Some (JStr (id q))"
      and "map_of raw ''name'' = Some (JStr (name q))"
      by (rule Patient_init_lookup)+
    with no show ?thesis by blast
  qed
next
  assume "Patient_init raw = Inl errs"
  then show "errs \<noteq> []"
    by (rule Patient_init_Inl)
next
  assume "Patient_init raw = Inl errs"
  then show "post_create raw data = (Inl (RequestValidationError errs), data)"
    by (simp add: post_create_def)
qed

theorem id_name_any_string_witness:
  "Patient_init john_raw = Inr john
   \<and> Patient_init (AList.update ''id'' (JStr '''') (AList.update ''name'' (JStr '''') john_raw)) =
       Inr (john\<lparr>id := '''', name := ''''\<rparr>)
   \<and> Patient_init [(''name'', JStr ''John Doe'')] =
       Inl [Missing ''id'', Missing ''city'', Missing ''age'', Missing ''gender'',
            Missing ''height'', Missing ''weight'']
   \<and> post_create [(''name'', JStr ''John Doe'')] john_store =
       (Inl (RequestValidationError
               [Missing ''id'', Missing ''city'', Missing ''age'', Missing ''gender'',
                Missing ''height'', Missing ''weight'']), john_store)"
proof -
  have i: "Patient_init john_raw = Inr john"
    by code_simp
  have e: "Patient_init [(''name'', JStr ''John Doe'')] =
       Inl [Missing ''id'', Missing ''city'', Missing ''age'', Missing ''gender'',
            Missing ''height'', Missing ''weight'']"
    by code_simp
  have no_id: "\<forall>s. map_of [(''name'', JStr ''John Doe'')] ''id'' \<noteq> Some (JStr s)"
    by simp
  show ?thesis
    using id_name_any_string [where raw = john_raw and p = john and i = "''''" and n = "''''"] i
      id_name_any_string [where raw = "[(''name'', JStr ''John Doe'')]" and data = john_store
        and errs = "[Missing ''id'', Missing ''city'', Missing ''age'', Missing ''gender'',
            Missing ''height'', Missing ''weight'']"] e no_id
    by simp
qed

text \<open>
  C3 as stated fails: a POST /create whose \<open>id\<close> and \<open>name\<close> are both the empty string,
  on an empty collection, passes validation, is answered 201, and is persisted under the
  empty key.
\<close>

theorem empty_id_name_counterexample:
  "post_create blank_raw [] =
     (Inr (JSONResponse 201 [(''message'', JStr ''Patient created successfully''),
                             (''patient_id'', JStr '''')]),
      [('''', blank_body)])"
  by code_simp

text \<open>
  C1, as the code has it. The derived fields are persisted with the record: after every
  successful POST /create and PUT /update/{id}, the body stored under the identifier holds
  name, city, age, gender, height and weight followed by \<open>bmi\<close> and \<open>verdict\<close>, and
  the two values are those that \<open>Patient.bmi\<close> and \<open>Patient.verdict\<close> return at this
  write for the patient whose height and weight are written with them (on an update: the
  patient validated from the merged record). A read does not compute anything: GET
  /view/{id} returns the body stored under the identifier as it is, whatever its \<open>bmi\<close>
  and \<open>verdict\<close> entries are, and GET /view returns the collection as it is.
\<close>

theorem derived_fields_persisted:
  "(post_create raw data = (Inr r, data') \<longrightarrow>
      (\<exists>p b v. Patient_init raw = Inr p \<and> bmi p = Inr b \<and> verdict p = Inr v
         \<and> map_of data' (id p) =
             Some [(''name'', JStr (name p)), (''city'', JStr (city p)),
                   (''age'', JNum (of_int (age p))), (''gender'', JStr (gender p)),
                   (''height'', JNum (height p)), (''weight'', JNum (weight p)),
                   (''bmi'', JNum b), (''verdict'', JStr v)]))
 \<and> (put_update pid raw data = (Inr r, data') \<longrightarrow>
      (\<exists>u existing p b v. PatientUpdate_init raw = Inr u \<and> map_of data pid = Some existing
         \<and> Patient_init (merged_info pid u existing) = Inr p
         \<and> id p = pid \<and> bmi p = Inr b \<and> verdict p = Inr v
         \<and> map_of data' pid =
             Some [(''name'', JStr (name p)), (''city'', JStr (city p)),
                   (''age'', JNum (of_int (age p))), (''gender'', JStr (gender p)),
                   (''height'', JNum (height p)), (''weight'', JNum (weight p)),
                   (''bmi'', JNum b), (''verdict'', JStr v)]))
 \<and> (map_of data pid = Some body \<longrightarrow> view_patient pid data = Inr body)
 \<and> view data = data"
proof (intro conjI impI)
  assume "post_create raw data = (Inr r, data')"
  then obtain p body where p: "Patient_init raw = Inr p"
    and body: "model_dump_exclude_id p = Inr body"
    and data': "data' = AList.update (id p) body data"
    by (auto simp: post_create_success create_patient_success)
  have "map_of data' (id p) = Some body"
    by (simp add: data' update_conv')
  then show "\<exists>p b v. Patient_init raw = Inr p \<and> bmi p = Inr b \<and> verdict p = Inr v
         \<and> map_of data' (id p) =
             Some [(''name'', JStr (name p)), (''city'', JStr (city p)),
                   (''age'', JNum (of_int (age p))), (''gender'', JStr (gender p)),
                   (''height'', JNum (height p)), (''weight'', JNum (weight p)),
                   (''bmi'', JNum b), (''verdict'', JStr v)]"
    using p body by (auto simp: model_dump_Inr)
next
  assume "put_update pid raw data = (Inr r, data')"
  then obtain u existing p body where
    u: "PatientUpdate_init raw = Inr u" and existing: "map_of data pid = Some existing"
    and p: "Patient_init (merged_info pid u existing) = Inr p"
    and body: "model_dump_exclude_id p = Inr body"
    and data': "data' = AList.update pid body data"
    unfolding put_update_success update_patient_success by blast
  have stored: "map_of data' pid = Some body"
    by (simp add: data' update_conv')
  have pid: "id p = pid"
    using p unfolding merged_info_def by (rule Patient_init_id)
  from body obtain b v where b: "bmi p = Inr b" and v: "verdict p = Inr v"
    and body_eq: "body = [(''name'', JStr (name p)), (''city'', JStr (city p)),
                   (''age'', JNum (of_int (age p))), (''gender'', JStr (gender p)),
                   (''height'', JNum (height p)), (''weight'', JNum (weight p)),
                   (''bmi'', JNum b), (''verdict'', JStr v)]"
    by (auto simp: model_dump_Inr)
  show "\<exists>u existing p b v. PatientUpdate_init raw = Inr u \<and> map_of data pid = Some existing
         \<and> Patient_init (merged_info pid u existing) = Inr p
         \<and> id p = pid \<and> bmi p = Inr b \<and> verdict p = Inr v
         \<and> map_of data' pid =
             Some [(''name'', JStr (name p)), (''city'', JStr (city p)),
                   (''age'', JNum (of_int (age p))), (''gender'', JStr (gender p)),
                   (''height'', JNum (height p)), (''weight'', JNum (weight p)),
                   (''bmi'', JNum b), (''verdict'', JStr v)]"
    using u existing p pid b v stored body_eq by blast
next
  assume "map_of data pid = Some body"
  then show "view_patient pid data = Inr body"
    by (simp add: view_patient_def)
next
  show "view data = data"
    by (simp add: view_def)
qed

theorem derived_fields_persisted_witness:
  "post_create john_raw [] = (Inr created, john_store)
   \<and> map_of john_store ''P001'' = Some john_body
   \<and> put_update ''P001'' [(''weight'', JNum 80)] john_store = (Inr updated, heavier_store)
   \<and> (\<exists>p b v. weight p = 80 \<and> bmi p = Inr b \<and> verdict p = Inr v
          \<and> map_of john_heavier ''bmi'' = Some (JNum b)
          \<and> map_of john_heavier ''verdict'' = Some (JStr v))
   \<and> map_of stale_store ''P001'' = Some stale_body
   \<and> view_patient ''P001'' stale_store = Inr stale_body
   \<and> map_of stale_body ''weight'' = Some (JNum 80)
   \<and> map_of stale_body ''bmi'' = Some (JNum 22.79)"
proof -
  note c = john_created and u = john_updated
  have "\<exists>p b v. Patient_init john_raw = Inr p \<and> bmi p = Inr b \<and> verdict p = Inr v
         \<and> map_of john_store (id p) =
             Some [(''name'', JStr (name p)), (''city'', JStr (city p)),
                   (''age'', JNum (of_int (age p))), (''gender'', JStr (gender p)),
                   (''height'', JNum (height p)), (''weight'', JNum (weight p)),
                   (''bmi'', JNum b), (''verdict'', JStr v)]"
    using derived_fields_persisted
        [where raw = john_raw and data = "[]" and r = created and data' = john_store] c
    by blast
  then obtain b v where "bmi john = Inr b" and "verdict john = Inr v"
    and "map_of john_store (id john) =
             Some [(''name'', JStr (name john)), (''city'', JStr (city john)),
                   (''age'', JNum (of_int (age john))), (''gender'', JStr (gender john)),
                   (''height'', JNum (height john)), (''weight'', JNum (weight john)),
                   (''bmi'', JNum b), (''verdict'', JStr v)]"
    using john_init by auto
  then have s1: "map_of john_store ''P001'' = Some john_body"
    by (simp add: john_store_def)
  have "\<exists>u existing p b v. PatientUpdate_init [(''weight'', JNum 80)] = Inr u
         \<and> map_of john_store ''P001'' = Some existing
         \<and> Patient_init (merged_info ''P001'' u existing) = Inr p
         \<and> id p = ''P001'' \<and> bmi p = Inr b \<and> verdict p = Inr v
         \<and> map_of heavier_store ''P001'' =
             Some [(''name'', JStr (name p)), (''city'', JStr (city p)),
                   (''age'', JNum (of_int (age p))), (''gender'', JStr (gender p)),
                   (''height'', JNum (height p)), (''weight'', JNum (weight p)),
                   (''bmi'', JNum b), (''verdict'', JStr v)]"
    using derived_fields_persisted
        [where pid = "''P001''" and raw = "[(''weight'', JNum 80)]"
          and data = john_store and r = updated and data' = heavier_store] u
    by blast
  then have s2: "\<exists>p b v. weight p = 80 \<and> bmi p = Inr b \<and> verdict p = Inr v
          \<and> map_of john_heavier ''bmi'' = Some (JNum b)
          \<and> map_of john_heavier ''verdict'' = Some (JStr v)"
    by (auto simp: heavier_store_def john_heavier_def)
  have st: "map_of stale_store ''P001'' = Some stale_body"
    by (simp add: stale_store_def)
  have v: "view_patient ''P001'' stale_store = Inr stale_body"
    using derived_fields_persisted
        [where pid = "''P001''" and data = stale_store and body = stale_body] st
    by simp
  have e: "map_of stale_body ''weight'' = Some (JNum 80)"
    "map_of stale_body ''bmi'' = Some (JNum 22.79)"
    by (simp_all add: stale_body_def)
  show ?thesis
    using c u s1 s2 st v e by simp
qed

text \<open>
  C1 as stated fails: after the POST /create of John Doe on an empty collection, the body
  written to the store has a \<open>bmi\<close> entry and a \<open>verdict\<close> entry.
\<close>

theorem stored_bmi_counterexample:
  "post_create john_raw [] = (Inr created, [(''P001'', john_body)])
   \<and> map_of john_body ''bmi'' = Some (JNum 22.79)
   \<and> map_of john_body ''verdict'' = Some (JStr ''Normal weight'')"
  by code_simp

text \<open>
  C9. After every successful POST /create and PUT /update/{id}, the body stored under
  the identifier has no \<open>id\<close> key: the identifier is the key of the collection only.
\<close>

theorem body_has_no_id:
  "(post_create raw data = (Inr r, data') \<longrightarrow>
      (\<exists>p body. Patient_init raw = Inr p \<and> map_of data' (id p) = Some body
         \<and> ''id'' \<notin> keys body))
 \<and> (put_update pid raw data = (Inr r, data') \<longrightarrow>
      (\<exists>body. map_of data' pid = Some body \<and> ''id'' \<notin> keys body))"
proof (intro conjI impI)
  assume "post_create raw data = (Inr r, data')"
  then obtain p body where p: "Patient_init raw = Inr p"
    and body: "model_dump_exclude_id p = Inr body"
    and data': "data' = AList.update (id p) body data"
    by (auto simp: post_create_success create_patient_success)
  have "''id'' \<notin> keys body"
    using dump_keys [OF body] by (simp add: keys_def)
  moreover have "map_of data' (id p) = Some body"
    by (simp add: data' update_conv')
  ultimately show "\<exists>p body. Patient_init raw = Inr p \<and> map_of data' (id p) = Some body
         \<and> ''id'' \<notin> keys body"
    using p by blast
next
  assume "put_update pid raw data = (Inr r, data')"
  then obtain p body where
    body: "model_dump_exclude_id p = Inr body"
    and data': "data' = AList.update pid body data"
    unfolding put_update_success update_patient_success by blast
  have "''id'' \<notin> keys body"
    using dump_keys [OF body] by (simp add: keys_def)
  moreover have "map_of data' pid = Some body"
    by (simp add: data' update_conv')
  ultimately show "\<exists>body. map_of data' pid = Some body \<and> ''id'' \<notin> keys body"
    by blast
qed

theorem body_has_no_id_witness:
  "post_create john_raw [] = (Inr created, john_store)
   \<and> put_update ''P001'' [(''weight'', JNum 80)] john_store = (Inr updated, heavier_store)
   \<and> ''id'' \<notin> keys john_body \<and> ''id'' \<notin> keys john_heavier"
proof -
  note c = john_created and u = john_updated
  have k1: "''id'' \<notin> keys john_body"
    using body_has_no_id
        [where raw = john_raw and data = "[]" and r = created and data' = john_store]
      c john_init
    by (auto simp: john_def john_store_def)
  have k2: "''id'' \<notin> keys john_heavier"
    using body_has_no_id
        [where pid = "''P001''" and raw = "[(''weight'', JNum 80)]"
          and data = john_store and r = updated and data' = heavier_store] u
    by (auto simp: heavier_store_def)
  show ?thesis
    using c u k1 k2 by simp
qed

text \<open>
  C4. For a PUT /update/{id} on an existing record, the supplied fields are written over
  the stored body (a supplied field wins, every other field keeps its stored value) and
  the merged whole goes through the full validation of \<open>Patient\<close> before anything is
  written. When that validation fails the update fails with its errors and the collection
  is unchanged, as it is on every failure of the handler. When the update succeeds, the
  body now stored is the dump of a patient that meets every base constraint.
\<close>

theorem update_revalidates_merged:
  assumes "map_of data pid = Some existing"
  shows "(\<forall>k. map_of (merged_info pid u existing) k =
            (if k = ''id'' then Some (JStr pid)
             else case map_of (model_dump_exclude_unset u) k of
                    Some v \<Rightarrow> Some v
                  | None \<Rightarrow> map_of existing k))
       \<and> (\<forall>errs. Patient_init (merged_info pid u existing) = Inl errs \<longrightarrow>
            update_patient pid u data = (Inl (ValidationError errs), data))
       \<and> (\<forall>e data'. update_patient pid u data = (Inl e, data') \<longrightarrow> data' = data)
       \<and> (\<forall>r data'. update_patient pid u data = (Inr r, data') \<longrightarrow>
            (\<exists>p body. Patient_init (merged_info pid u existing) = Inr p
               \<and> id p = pid \<and> 0 < age p \<and> age p < 120
               \<and> gender p \<in> {''male'', ''female'', ''other''}
               \<and> 0 < height p \<and> 0 < weight p
               \<and> model_dump_exclude_id p = Inr body
               \<and> data' = AList.update pid body data
               \<and> map_of data' pid = Some body))"
proof (intro conjI allI impI)
  fix k
  show "map_of (merged_info pid u existing) k =
            (if k = ''id'' then Some (JStr pid)
             else case map_of (model_dump_exclude_unset u) k of
                    Some v \<Rightarrow> Some v
                  | None \<Rightarrow> map_of existing k)"
    by (rule merged_info_lookup)
next
  fix errs
  assume "Patient_init (merged_info pid u existing) = Inl errs"
  with assms show "update_patient pid u data = (Inl (ValidationError errs), data)"
    by (simp add: update_patient_def merged_info_def Let_def)
next
  fix e data'
  assume "update_patient pid u data = (Inl e, data')"
  then show "data' = data"
    by (rule update_patient_failure)
next
  fix r data'
  assume "update_patient pid u data = (Inr r, data')"
  with assms obtain p body where
    p: "Patient_init (merged_info pid u existing) = Inr p" and
    body: "model_dump_exclude_id p = Inr body" and
    data': "data' = AList.update pid body data"
    by (auto simp: update_patient_success)
  have "id p = pid"
    using p unfolding merged_info_def by (rule Patient_init_id)
  moreover have "map_of data' pid = Some body"
    by (simp add: data' update_conv')
  ultimately show "\<exists>p body. Patient_init (merged_info pid u existing) = Inr p
               \<and> id p = pid \<and> 0 < age p \<and> age p < 120
               \<and> gender p \<in> {''male'', ''female'', ''other''}
               \<and> 0 < height p \<and> 0 < weight p
               \<and> model_dump_exclude_id p = Inr body
               \<and> data' = AList.update pid body data
               \<and> map_of data' pid = Some body"
    using p body data' Patient_init_constraints [OF p] by blast
qed

theorem update_revalidates_merged_witness:
  "map_of john_store ''P001'' = Some john_body
   \<and> PatientUpdate_init [(''age'', JNum 150)] = Inr age_150
   \<and> Patient_init (merged_info ''P001'' age_150 john_body) = Inl [LessThan ''age'']
   \<and> update_patient ''P001'' age_150 john_store =
       (Inl (ValidationError [LessThan ''age'']), john_store)
   \<and> put_update ''P001'' [(''age'', JNum 150)] john_store =
       (Inl (ValidationError [LessThan ''age'']), john_store)"
proof -
  have h: "map_of john_store ''P001'' = Some john_body"
    by code_simp
  have u: "PatientUpdate_init [(''age'', JNum 150)] = Inr age_150"
    by code_simp
  have m: "Patient_init (merged_info ''P001'' age_150 john_body) = Inl [LessThan ''age'']"
    by code_simp
  have f: "update_patient ''P001'' age_150 john_store =
      (Inl (ValidationError [LessThan ''age'']), john_store)"
    using update_revalidates_merged [OF h, of age_150] m by blast
  show ?thesis
    using h u m f by (simp add: put_update_def)
qed

section \<open>Updating the weight alone\<close>







section \<open>Sorting\<close>

text \<open>
  C8. For \<open>sort_by\<close> among height, weight and bmi and \<open>order\<close> among asc and desc, on a
  collection whose records all hold a number under the chosen key, GET /sort returns the
  values of the collection (the same records, each as often) ordered by that key,
  ascending for asc and descending for desc, and the records with equal keys stand in the
  order they have in the collection, in both directions.
\<close>

theorem sort_patients_stable:
  assumes "sort_by \<in> {''height'', ''weight'', ''bmi''}"
    and "order \<in> {''asc'', ''desc''}"
    and "\<forall>x \<in> set (map snd data). \<exists>r. map_of x sort_by = Some (JNum r)"
  shows "\<exists>ys. sort_patients sort_by order data = Inr ys
           \<and> mset ys = mset (map snd data)
           \<and> (order = ''asc'' \<longrightarrow> sorted (map (num_key sort_by) ys))
           \<and> (order = ''desc'' \<longrightarrow> sorted (rev (map (num_key sort_by) ys)))
           \<and> (\<forall>k. filter (\<lambda>x. num_key sort_by x = k) ys =
                    filter (\<lambda>x. num_key sort_by x = k) (map snd data))"
proof -
  let ?xs = "map snd data" and ?f = "num_key sort_by"
  have no_missing: "\<not> list_ex (\<lambda>x. map_of x sort_by = None) ?xs"
    using assms(3) by (auto simp: list_ex_iff)
  have all_num: "\<not> list_ex (\<lambda>x. \<not> is_num_key sort_by x) ?xs"
    using assms(3) by (auto simp: list_ex_iff is_num_key_def)
  have sorted_eq: "py_sorted sort_by rv ?xs =
      Inr (if rv then rev (sort_key ?f (rev ?xs)) else sort_key ?f ?xs)" for rv
    using no_missing all_num by (simp add: py_sorted_def)
  have valid: "sort_by \<in> set valid_fields" "order \<in> set [''asc'', ''desc'']"
    using assms(1,2) by (auto simp: valid_fields_def)
  show ?thesis
  proof (cases "order = ''desc''")
    case True
    let ?ys = "rev (sort_key ?f (rev ?xs))"
    have res: "sort_patients sort_by order data = Inr ?ys"
      using valid True by (simp add: sort_patients_def sorted_eq)
    have stable: "filter (\<lambda>x. ?f x = k) ?ys = filter (\<lambda>x. ?f x = k) ?xs" for k
      by (simp add: rev_filter [symmetric] sort_key_stable)
    have "sorted (rev (map ?f ?ys))"
      by (simp add: rev_map [symmetric])
    moreover have "mset ?ys = mset ?xs"
      by simp
    ultimately show ?thesis
      using res stable True by auto
  next
    case False
    then have asc: "order = ''asc''"
      using assms(2) by auto
    let ?ys = "sort_key ?f ?xs"
    have res: "sort_patients sort_by order data = Inr ?ys"
      using valid False by (simp add: sort_patients_def sorted_eq)
    have stable: "filter (\<lambda>x. ?f x = k) ?ys = filter (\<lambda>x. ?f x = k) ?xs" for k
      by (rule sort_key_stable)
    have "sorted (map ?f ?ys)" and "mset ?ys = mset ?xs"
      by simp_all
    then show ?thesis
      using res stable asc by auto
  qed
qed

theorem sort_patients_stable_witness:
  "sort_patients ''bmi'' ''desc'' trio = Inr [rec_b, rec_c, rec_a]
   \<and> map (num_key ''bmi'') [rec_b, rec_c, rec_a] = [30, 22, 18]
   \<and> sort_patients ''height'' ''desc'' trio = Inr [rec_a, rec_b, rec_c]
   \<and> sort_patients ''weight'' ''asc'' trio = Inr [rec_a, rec_c, rec_b]"
proof -
  have f: "''bmi'' \<in> {''height'', ''weight'', ''bmi''}" and o: "''desc'' \<in> {''asc'', ''desc''}"
    by simp_all
  have n: "\<forall>x \<in> set (map snd trio). \<exists>r. map_of x ''bmi'' = Some (JNum r)"
    by (simp add: trio_def rec_a_def rec_b_def rec_c_def)
  have s1: "sort_patients ''bmi'' ''desc'' trio = Inr [rec_b, rec_c, rec_a]"
    by code_simp
  have s2: "sort_patients ''height'' ''desc'' trio = Inr [rec_a, rec_b, rec_c]"
    by code_simp
  have s3: "sort_patients ''weight'' ''asc'' trio = Inr [rec_a, rec_c, rec_b]"
    by code_simp
  have k: "map (num_key ''bmi'') [rec_b, rec_c, rec_a] = [30, 22, 18]"
    by code_simp
  show ?thesis
    using sort_patients_stable [OF f o n] s1 s2 s3 k by simp
qed

section \<open>Prediction\<close>

text \<open>
  C10. For every input, POST /predict calls the classifier once on the feature dictionary.
  When the classifier returns a label the response is status 200 with the label under
  \<open>response\<close>; when it raises, the response is status 500 with the exception's message
  under \<open>error\<close>. Either way the classifier is left in the state its one call produced:
  there is no second call.
\<close>

theorem predict_response:
  "(predict_output (user_input data) m = (Inr label, m') \<longrightarrow>
      predict predict_output data m = (JSONResponse 200 [(''response'', label)], m'))
 \<and> (predict_output (user_input data) m = (Inl msg, m') \<longrightarrow>
      predict predict_output data m = (JSONResponse 500 [(''error'', JStr msg)], m'))"
  by (simp add: predict_def)

theorem predict_response_witness:
  "predict answering sample_input 0 = (JSONResponse 200 [(''response'', JStr ''High'')], Suc 0)
   \<and> predict failing sample_input 0 =
       (JSONResponse 500 [(''error'', JStr ''feature shape mismatch'')], Suc 0)"
proof -
  have a: "answering (user_input sample_input) 0 = (Inr (JStr ''High''), Suc 0)"
    by (simp add: answering_def)
  have f: "failing (user_input sample_input) 0 = (Inl ''feature shape mismatch'', Suc 0)"
    by (simp add: failing_def)
  show ?thesis
    using predict_response [where predict_output = answering and data = sample_input and m = 0
        and label = "JStr ''High''" and m' = "Suc 0"]
      predict_response [where predict_output = failing and data = sample_input and m = 0
        and msg = "''feature shape mismatch''" and m' = "Suc 0"]
      a f
    by simp
qed

end
